theory Spec2Isabelle
  imports Complex_Main "HOL-Library.AList"
begin

section \<open>Physical quantities\<close>

text \<open>
  The module \<^verbatim>\<open>monosynaptic.py\<close> consumes dimensioned quantities of the numerical
  backend: every quantity carries a dimension (the exponents of the seven SI base
  dimensions: length, mass, time, current, temperature, amount, luminosity) that can
  be compared for equality. Only the four unit constants the validator names and the
  four scaled units of the defaults are needed. Python floats are modelled as reals:
  the module only stores and compares them.
\<close>

datatype dimension = Dimension int int int int int int int

datatype unit_const = second | volt | siemens | farad

fun dim_of :: "unit_const \<Rightarrow> dimension" where
  "dim_of second = Dimension 0 0 1 0 0 0 0"
| "dim_of volt = Dimension 2 1 (- 3) (- 1) 0 0 0"
| "dim_of siemens = Dimension (- 2) (- 1) 3 2 0 0 0"
| "dim_of farad = Dimension (- 2) (- 1) 4 2 0 0 0"

text \<open>
  A value stored in a parameter dictionary is either a quantity (magnitude in SI base
  units and dimension) or a plain Python number. A quantity of the backend has the
  attribute \<^verbatim>\<open>dim\<close> and no attribute \<^verbatim>\<open>unit\<close>; a plain number has neither.
\<close>

datatype pvalue = Quantity real dimension | Number real

fun scale :: "real \<Rightarrow> pvalue \<Rightarrow> pvalue" where
  "scale r (Quantity m d) = Quantity (r * m) d"
| "scale r (Number x) = Number (r * x)"

definition ms :: pvalue where
  "ms = Quantity (1 / 1000) (dim_of second)"

definition mV :: pvalue where
  "mV = Quantity (1 / 1000) (dim_of volt)"

definition nS :: pvalue where
  "nS = Quantity (1 / 1000000000) (dim_of siemens)"

definition nF :: pvalue where
  "nF = Quantity (1 / 1000000000) (dim_of farad)"

section \<open>Dictionaries, messages and exceptions\<close>

text \<open>
  A Python dictionary is an association list in insertion order. \<^verbatim>\<open>d.update(other)\<close>
  stores the items of \<^verbatim>\<open>other\<close> one after the other: an existing key keeps its place
  and takes the new value, a new key is appended.
\<close>

definition dict_update :: "('k \<times> 'v) list \<Rightarrow> ('k \<times> 'v) list \<Rightarrow> ('k \<times> 'v) list" where
  "dict_update d other = fold (\<lambda>kv acc. AList.update (fst kv) (snd kv) acc) other d"

definition keys :: "('k \<times> 'v) list \<Rightarrow> 'k set" where
  "keys d = set (map fst d)"

text \<open>
  A formatted message is a list of pieces: literal text, and the values an f-string
  interpolates whose rendering belongs to Python (a set, a float).
\<close>

datatype piece =
    Text string
  | NameSet "string set"
  | PairSet "(string \<times> string) set"
  | Num real

type_synonym message = "piece list"

definition quoted :: "string \<Rightarrow> string" where
  "quoted s = [CHR 0x27] @ s @ [CHR 0x27]"

definition newline :: piece where
  "newline = Text [CHR 0x0A]"

fun join :: "piece \<Rightarrow> message list \<Rightarrow> message" where
  "join sep [] = []"
| "join sep [m] = m"
| "join sep (m # n # rest) = m @ [sep] @ join sep (n # rest)"

datatype exn =
    KeyError string
  | AttributeError string
  | ValueError message

record issues =
  warnings :: "message list"
  errors :: "message list"

definition add_error :: "message \<Rightarrow> issues \<Rightarrow> issues" where
  "add_error m iss = iss\<lparr>errors := errors iss @ [m]\<rparr>"

definition add_warning :: "message \<Rightarrow> issues \<Rightarrow> issues" where
  "add_warning m iss = iss\<lparr>warnings := warnings iss @ [m]\<rparr>"

section \<open>The configuration object\<close>

record activation =
  u0 :: "real list"
  c0 :: "real list"
  P0 :: real
  a0 :: real

record biological_system =
  reaction_time :: pvalue
  ees_recruitment_profile :: "(string \<times> (string \<times> real) list) list"
  biophysical_params :: "(string \<times> pvalue) list"
  muscles_names :: "string list"
  number_muscles :: nat
  associated_joint :: string
  fast_type_mu :: bool
  initial_state_opensim :: "string option"

record monosynaptic = biological_system +
  neurons_population :: "(string \<times> int) list"
  connections :: "((string \<times> string) \<times> (string \<times> pvalue) list) list"
  spindle_model :: "(string \<times> string) list"
  initial_potentials :: "(string \<times> pvalue) list"
  initial_condition_spike_activation :: "activation list list"

text \<open>
  Modelled from the spec: the initialiser of the base class \<^verbatim>\<open>BiologicalSystem\<close>
  (module \<^verbatim>\<open>base_system\<close>, not among the sources). The spec gives the base a shared
  field layout (muscle list, joint, biophysical parameter dictionary, recruitment
  profile dictionary) and a muscle-count attribute: the arguments are stored as they
  are passed and \<^verbatim>\<open>number_muscles\<close> is the number of muscle names.
\<close>

definition base_init ::
  "pvalue \<Rightarrow> (string \<times> (string \<times> real) list) list \<Rightarrow> (string \<times> pvalue) list \<Rightarrow>
   string list \<Rightarrow> string \<Rightarrow> bool \<Rightarrow> string option \<Rightarrow> biological_system" where
  "base_init rt ees bp muscles joint fast opensim =
     \<lparr>reaction_time = rt, ees_recruitment_profile = ees, biophysical_params = bp,
      muscles_names = muscles, number_muscles = length muscles,
      associated_joint = joint, fast_type_mu = fast, initial_state_opensim = opensim\<rparr>"

section \<open>Validation (\<^verbatim>\<open>Monosynaptic.validate_input\<close>)\<close>

definition empty_issues :: issues where
  "empty_issues = \<lparr>warnings = [], errors = []\<rparr>"

definition required_neurons :: "string set" where
  "required_neurons = {''Ia'', ''MN''}"

definition required_connections :: "(string \<times> string) set" where
  "required_connections = {(''Ia'', ''MN'')}"

definition required_params :: "string list" where
  "required_params = [''T_refr'', ''Eleaky'', ''gL'', ''Cm'', ''E_ex'', ''tau_e'', ''threshold_v'']"

definition expected_units :: "(string \<times> unit_const) list" where
  "expected_units =
     [(''T_refr'', second), (''Eleaky'', volt), (''gL'', siemens), (''Cm'', farad),
      (''E_ex'', volt), (''tau_e'', second), (''threshold_v'', volt)]"

definition required_ees_params :: "string list" where
  "required_ees_params = [''threshold_10pct'', ''saturation_90pct'']"

text \<open>The messages of the validator, as its f-strings build them.\<close>

definition msg_muscles :: message where
  "msg_muscles = [Text ''Monosynaptic reflex should have exactly 1 muscle'']"

definition msg_missing_neurons :: "string set \<Rightarrow> message" where
  "msg_missing_neurons missing_neurons =
     [Text ''Missing required neuron types for monosynaptic reflex: '', NameSet missing_neurons]"

definition msg_unexpected_neurons :: "string set \<Rightarrow> message" where
  "msg_unexpected_neurons unexpected_neurons =
     [Text ''Unexpected neuron types for monosynaptic reflex: '', NameSet unexpected_neurons]"

definition msg_missing_connections :: "(string \<times> string) set \<Rightarrow> message" where
  "msg_missing_connections missing_connections =
     [Text ''Missing required connections for monosynaptic reflex: '',
      PairSet missing_connections]"

definition msg_spindle :: message where
  "msg_spindle = [Text ''Missing Ia equation in spindle model for monosynaptic reflex'']"

definition msg_missing_ees :: "string \<Rightarrow> message" where
  "msg_missing_ees neuron_type =
     [Text (''Missing EES recruitment parameters for neuron type '' @ quoted neuron_type)]"

definition msg_inhibitory :: message where
  "msg_inhibitory =
     [Text ''Inhibitory parameters present but no inhibitory neurons in monosynaptic reflex'']"

definition msg_missing_param :: "string \<Rightarrow> message" where
  "msg_missing_param param =
     [Text (''Missing mandatory biophysical parameter: '' @ quoted param)]"

definition msg_missing_ees_param :: "string \<Rightarrow> string \<Rightarrow> message" where
  "msg_missing_ees_param param neuron_type =
     [Text (''Missing '' @ quoted param @ '' in EES recruitment parameters for '' @
            quoted neuron_type)]"

definition msg_ees_range :: "string \<Rightarrow> real \<Rightarrow> real \<Rightarrow> message" where
  "msg_ees_range neuron_type threshold saturation =
     [Text (''EES parameters for '' @ quoted neuron_type @ '' must be between 0 and 1. ''),
      Text ''Got: threshold='', Num threshold, Text '', saturation='', Num saturation]"

definition msg_ees_order :: "string \<Rightarrow> message" where
  "msg_ees_order neuron_type =
     [Text (''Threshold must be less than saturation for '' @ quoted neuron_type)]"

text \<open>Lines 110-112: the muscle count.\<close>

definition check_muscles :: "monosynaptic \<Rightarrow> issues \<Rightarrow> issues" where
  "check_muscles self iss =
     (if number_muscles self \<noteq> 1
      then add_error msg_muscles iss
      else iss)"

text \<open>Lines 114-125: required and unexpected neuron types.\<close>

definition check_neurons :: "monosynaptic \<Rightarrow> issues \<Rightarrow> issues" where
  "check_neurons self iss =
     (let defined_neurons = keys (neurons_population self);
          missing_neurons = required_neurons - defined_neurons;
          iss1 = (if missing_neurons \<noteq> {}
                  then add_error (msg_missing_neurons missing_neurons) iss
                  else iss);
          unexpected_neurons = defined_neurons - required_neurons
      in if unexpected_neurons \<noteq> {}
         then add_warning (msg_unexpected_neurons unexpected_neurons) iss1
         else iss1)"

text \<open>Lines 127-133: the required connection.\<close>

definition check_connections :: "monosynaptic \<Rightarrow> issues \<Rightarrow> issues" where
  "check_connections self iss =
     (let defined_connections = keys (connections self);
          missing_connections = required_connections - defined_connections
      in if missing_connections \<noteq> {}
         then add_error (msg_missing_connections missing_connections) iss
         else iss)"

text \<open>Lines 135-137: the spindle equation of Ia.\<close>

definition check_spindle :: "monosynaptic \<Rightarrow> issues \<Rightarrow> issues" where
  "check_spindle self iss =
     (if ''Ia'' \<notin> keys (spindle_model self)
      then add_error msg_spindle iss
      else iss)"

text \<open>Lines 139-142: a recruitment entry for each of Ia and MN.\<close>

definition check_ees_types :: "monosynaptic \<Rightarrow> issues \<Rightarrow> issues" where
  "check_ees_types self iss =
     fold (\<lambda>neuron_type acc.
             if neuron_type \<notin> keys (ees_recruitment_profile self)
             then add_error (msg_missing_ees neuron_type) acc
             else acc)
          [''Ia'', ''MN''] iss"

text \<open>Lines 144-146: inhibitory parameters.\<close>

definition check_inhibitory :: "monosynaptic \<Rightarrow> issues \<Rightarrow> issues" where
  "check_inhibitory self iss =
     (if ''E_inh'' \<in> keys (biophysical_params self) \<or> ''tau_i'' \<in> keys (biophysical_params self)
      then add_warning msg_inhibitory iss
      else iss)"

text \<open>Lines 148-152: the mandatory biophysical parameters.\<close>

definition check_required_params :: "monosynaptic \<Rightarrow> issues \<Rightarrow> issues" where
  "check_required_params self iss =
     fold (\<lambda>param acc.
             if param \<notin> keys (biophysical_params self)
             then add_error (msg_missing_param param) acc
             else acc)
          required_params iss"

text \<open>
  Lines 165-172: the units. The loop reads \<^verbatim>\<open>value.dim\<close> of every present value: a
  plain number has no such attribute and the read raises. On a mismatch the f-string
  of lines 170-171 is evaluated before \<^verbatim>\<open>append\<close> is called, and it reads
  \<^verbatim>\<open>value.unit\<close>: a quantity has no such attribute, so this read raises too and the
  message of a mismatch is never built.
\<close>

fun check_units ::
  "(string \<times> pvalue) list \<Rightarrow> (string \<times> unit_const) list \<Rightarrow> issues \<Rightarrow> exn + issues" where
  "check_units bp [] iss = Inr iss"
| "check_units bp ((param, expected_unit) # rest) iss =
     (case map_of bp param of
        None \<Rightarrow> check_units bp rest iss
      | Some (Number x) \<Rightarrow> Inl (AttributeError ''dim'')
      | Some (Quantity m d) \<Rightarrow>
          if \<not> d = dim_of expected_unit
          then Inl (AttributeError ''unit'')
          else check_units bp rest iss)"

text \<open>Lines 175-192: the sub-fields of the recruitment entries of Ia and MN.\<close>

definition check_ees_entry :: "string \<Rightarrow> (string \<times> real) list \<Rightarrow> issues \<Rightarrow> issues" where
  "check_ees_entry neuron_type params iss =
     (if neuron_type \<in> set [''Ia'', ''MN'']
      then
        (let iss1 =
               fold (\<lambda>param acc.
                       if param \<notin> keys params
                       then add_error (msg_missing_ees_param param neuron_type) acc
                       else acc)
                    required_ees_params iss
         in case (map_of params ''threshold_10pct'', map_of params ''saturation_90pct'') of
              (Some threshold, Some saturation) \<Rightarrow>
                (let iss2 =
                       (if \<not> (0 \<le> threshold \<and> threshold \<le> 1) \<or> \<not> (0 \<le> saturation \<and> saturation \<le> 1)
                        then add_error (msg_ees_range neuron_type threshold saturation) iss1
                        else iss1)
                 in if threshold \<ge> saturation
                    then add_error (msg_ees_order neuron_type) iss2
                    else iss2)
            | _ \<Rightarrow> iss1)
      else iss)"

definition check_ees_params :: "monosynaptic \<Rightarrow> issues \<Rightarrow> issues" where
  "check_ees_params self iss =
     fold (\<lambda>entry acc. check_ees_entry (fst entry) (snd entry) acc)
          (ees_recruitment_profile self) iss"

text \<open>
  Lines 108-192: the collection pass, the checks before the units loop first. It ends
  with the two buckets, or with the exception of the units loop.
\<close>

definition pre_checks :: "monosynaptic \<Rightarrow> issues" where
  "pre_checks self =
     check_required_params self
       (check_inhibitory self
         (check_ees_types self
           (check_spindle self
             (check_connections self
               (check_neurons self
                 (check_muscles self empty_issues))))))"

definition collect_issues :: "monosynaptic \<Rightarrow> exn + issues" where
  "collect_issues self =
     (case check_units (biophysical_params self) expected_units (pre_checks self) of
        Inl e \<Rightarrow> Inl e
      | Inr iss \<Rightarrow> Inr (check_ees_params self iss))"

definition error_report :: "message list \<Rightarrow> message" where
  "error_report errs = [Text ''Monosynaptic configuration errors:'', newline] @ join newline errs"

definition warning_report :: "message list \<Rightarrow> message" where
  "warning_report warns =
     [Text ''WARNING: Monosynaptic configuration issues:'', newline] @ join newline warns"

text \<open>
  Lines 194-204: the report. The method returns \<^verbatim>\<open>True\<close> or raises; the result
  \<open>Inr None\<close> is the return with nothing printed, \<open>Inr (Some w)\<close> the return after
  printing the notice \<open>w\<close>. The second component is the object after the call: the
  method assigns no attribute.
\<close>

definition validate_input :: "monosynaptic \<Rightarrow> (exn + message option) \<times> monosynaptic" where
  "validate_input self =
     (case collect_issues self of
        Inl e \<Rightarrow> (Inl e, self)
      | Inr iss \<Rightarrow>
          if errors iss \<noteq> [] then (Inl (ValueError (error_report (errors iss))), self)
          else if warnings iss \<noteq> [] then (Inr (Some (warning_report (warnings iss))), self)
          else (Inr None, self))"

section \<open>Construction (\<^verbatim>\<open>Monosynaptic.__init__\<close>)\<close>

record args =
  p_reaction_time :: pvalue
  p_biophysical_params :: "(string \<times> pvalue) list option"
  p_muscles_names :: "string list option"
  p_associated_joint :: string
  p_custom_neurons :: "(string \<times> int) list option"
  p_custom_connections :: "((string \<times> string) \<times> (string \<times> pvalue) list) list option"
  p_custom_spindle :: "(string \<times> string) list option"
  p_ees_recruitment_profile :: "(string \<times> (string \<times> real) list) list option"
  p_fast_type_mu :: bool
  p_custom_initial_potentials :: "(string \<times> pvalue) list option"
  p_custom_initial_condition_spike_activation :: "activation list list option"
  p_initial_state_opensim :: "string option"

text \<open>The call \<^verbatim>\<open>Monosynaptic()\<close>: every parameter at the default of the signature.\<close>

definition no_overrides :: args where
  "no_overrides =
     \<lparr>p_reaction_time = scale 25 ms, p_biophysical_params = None, p_muscles_names = None,
      p_associated_joint = ''ankle_angle_r'', p_custom_neurons = None,
      p_custom_connections = None, p_custom_spindle = None,
      p_ees_recruitment_profile = None, p_fast_type_mu = True,
      p_custom_initial_potentials = None,
      p_custom_initial_condition_spike_activation = None,
      p_initial_state_opensim = None\<rparr>"

definition default_biophysical_params :: "(string \<times> pvalue) list" where
  "default_biophysical_params =
     [(''T_refr'', scale 5 ms), (''Eleaky'', scale (- 70) mV), (''gL'', scale 10 nS),
      (''Cm'', scale (3 / 10) nF), (''E_ex'', scale 0 mV), (''tau_e'', scale (1 / 2) ms),
      (''threshold_v'', scale (- 50) mV)]"

definition default_ees_recruitment_profile :: "(string \<times> (string \<times> real) list) list" where
  "default_ees_recruitment_profile =
     [(''Ia'', [(''threshold_10pct'', 3 / 10), (''saturation_90pct'', 7 / 10)]),
      (''MN'', [(''threshold_10pct'', 7 / 10), (''saturation_90pct'', 9 / 10)])]"

definition default_neurons_population :: "(string \<times> int) list" where
  "default_neurons_population = [(''Ia'', 410), (''MN'', 500)]"

definition default_connections :: "((string \<times> string) \<times> (string \<times> pvalue) list) list" where
  "default_connections =
     [((''Ia'', ''MN''), [(''w'', scale (21 / 10) nS), (''p'', Number (7 / 10))])]"

definition default_spindle_model :: "(string \<times> string) list" where
  "default_spindle_model =
     [(''Ia'', ''10+ 2*stretch + 4.3*sign(stretch_velocity)*abs(stretch_velocity)**0.6'')]"

definition zero_activation :: activation where
  "zero_activation = \<lparr>u0 = [0, 0], c0 = [0, 0], P0 = 0, a0 = 0\<rparr>"

text \<open>
  A parameter that is \<^verbatim>\<open>None\<close> takes the default (lines 22-46); a custom mapping
  that is not \<^verbatim>\<open>None\<close> is stored into the defaults with \<^verbatim>\<open>update\<close> (lines 59-60,
  68-69, 77-78); a custom initial state that is not \<^verbatim>\<open>None\<close> replaces the default
  (lines 83-84, 95-96).
\<close>

definition or_default :: "'a option \<Rightarrow> 'a \<Rightarrow> 'a" where
  "or_default given dflt = (case given of None \<Rightarrow> dflt | Some x \<Rightarrow> x)"

definition updated_with :: "('k \<times> 'v) list \<Rightarrow> ('k \<times> 'v) list option \<Rightarrow> ('k \<times> 'v) list" where
  "updated_with d custom = (case custom of None \<Rightarrow> d | Some c \<Rightarrow> dict_update d c)"

text \<open>
  Lines 21-96: the object before validation. Reading \<^verbatim>\<open>biophysical_params['Eleaky']\<close>
  (line 81) and \<^verbatim>\<open>neurons_population['MN']\<close> (line 93) raises on a missing key;
  \<^verbatim>\<open>range(n)\<close> is empty for a negative \<open>n\<close>.
\<close>

definition build :: "args \<Rightarrow> exn + monosynaptic" where
  "build a =
     (let muscles = or_default (p_muscles_names a) [''soleus_r''];
          bp = or_default (p_biophysical_params a) default_biophysical_params;
          ees = or_default (p_ees_recruitment_profile a) default_ees_recruitment_profile;
          base = base_init (p_reaction_time a) ees bp muscles (p_associated_joint a)
                   (p_fast_type_mu a) (p_initial_state_opensim a);
          neurons = updated_with default_neurons_population (p_custom_neurons a);
          conns = updated_with default_connections (p_custom_connections a);
          spindle = updated_with default_spindle_model (p_custom_spindle a)
      in case map_of (biophysical_params base) ''Eleaky'' of
           None \<Rightarrow> Inl (KeyError ''Eleaky'')
         | Some eleaky \<Rightarrow>
             (let potentials = or_default (p_custom_initial_potentials a) [(''MN'', eleaky)]
              in case map_of neurons ''MN'' of
                   None \<Rightarrow> Inl (KeyError ''MN'')
                 | Some n \<Rightarrow>
                     (let act = or_default (p_custom_initial_condition_spike_activation a)
                                  [replicate (nat n) zero_activation]
                      in Inr (biological_system.extend base
                                (monosynaptic.fields neurons conns spindle potentials act)))))"

text \<open>
  The constructor: the object is built, then validated (line 99). The result is the
  exception raised, or the object together with the notice printed.
\<close>

definition init :: "args \<Rightarrow> exn + (monosynaptic \<times> message option)" where
  "init a =
     (case build a of
        Inl e \<Rightarrow> Inl e
      | Inr self \<Rightarrow>
          (case validate_input self of
             (Inl e, self') \<Rightarrow> Inl e
           | (Inr out, self') \<Rightarrow> Inr (self', out)))"

text \<open>
  The object \<^verbatim>\<open>Monosynaptic()\<close> builds, and \<^verbatim>\<open>profile[neuron_type][field]\<close>, the
  reading of one sub-field of a recruitment profile.
\<close>

definition default_object :: monosynaptic where
  "default_object =
     biological_system.extend
       (base_init (scale 25 ms) default_ees_recruitment_profile default_biophysical_params
          [''soleus_r''] ''ankle_angle_r'' True None)
       (monosynaptic.fields default_neurons_population default_connections default_spindle_model
          [(''MN'', scale (- 70) mV)] [replicate 500 zero_activation])"

definition ees_value ::
  "(string \<times> (string \<times> real) list) list \<Rightarrow> string \<Rightarrow> string \<Rightarrow> real option" where
  "ees_value profile neuron_type field =
     (case map_of profile neuron_type of None \<Rightarrow> None | Some params \<Rightarrow> map_of params field)"

text \<open>The call \<^verbatim>\<open>Monosynaptic(custom_neurons={"MN": 600})\<close> and the object it builds.\<close>

definition mn_600 :: args where
  "mn_600 = no_overrides\<lparr>p_custom_neurons := Some [(''MN'', 600)]\<rparr>"

definition mn_600_object :: monosynaptic where
  "mn_600_object =
     default_object\<lparr>neurons_population := [(''Ia'', 410), (''MN'', 600)],
                    initial_condition_spike_activation := [replicate 600 zero_activation]\<rparr>"

text \<open>
  A plain number, and a voltage, stored under \<^verbatim>\<open>T_refr\<close> in an otherwise default
  dictionary; and a full dictionary with another refractory period.
\<close>

definition plain_T_refr :: args where
  "plain_T_refr =
     no_overrides\<lparr>p_biophysical_params :=
       Some (AList.update ''T_refr'' (Number 5) default_biophysical_params)\<rparr>"

definition plain_T_refr_object :: monosynaptic where
  "plain_T_refr_object =
     default_object\<lparr>biophysical_params :=
       AList.update ''T_refr'' (Number 5) default_biophysical_params\<rparr>"

definition volt_T_refr :: args where
  "volt_T_refr =
     no_overrides\<lparr>p_biophysical_params :=
       Some (AList.update ''T_refr'' (scale 5 mV) default_biophysical_params)\<rparr>"

definition volt_T_refr_object :: monosynaptic where
  "volt_T_refr_object =
     default_object\<lparr>biophysical_params :=
       AList.update ''T_refr'' (scale 5 mV) default_biophysical_params\<rparr>"

definition slow_T_refr :: args where
  "slow_T_refr =
     no_overrides\<lparr>p_biophysical_params :=
       Some (AList.update ''T_refr'' (scale 8 ms) default_biophysical_params)\<rparr>"

definition slow_T_refr_object :: monosynaptic where
  "slow_T_refr_object =
     default_object\<lparr>biophysical_params :=
       AList.update ''T_refr'' (scale 8 ms) default_biophysical_params\<rparr>"

text \<open>Two muscles together with the voltage under \<^verbatim>\<open>T_refr\<close>: two violated rules.\<close>

definition two_errors :: args where
  "two_errors =
     no_overrides\<lparr>p_muscles_names := Some [''soleus_r'', ''tibialis_r''],
                  p_biophysical_params :=
                    Some (AList.update ''T_refr'' (scale 5 mV) default_biophysical_params)\<rparr>"

definition two_errors_object :: monosynaptic where
  "two_errors_object =
     default_object\<lparr>biophysical_params :=
                      AList.update ''T_refr'' (scale 5 mV) default_biophysical_params,
                    muscles_names := [''soleus_r'', ''tibialis_r''],
                    number_muscles := 2\<rparr>"

text \<open>
  Recruitment profiles: the entry of MN with a threshold of 1.5 and no saturation, the
  entry of MN with a threshold of 1.5 and a saturation of 0.9, and a profile with the
  entry of Ia alone. A dictionary with \<^verbatim>\<open>T_refr\<close> alone.
\<close>

definition threshold_only :: args where
  "threshold_only =
     no_overrides\<lparr>p_ees_recruitment_profile :=
       Some [(''Ia'', [(''threshold_10pct'', 3 / 10), (''saturation_90pct'', 7 / 10)]),
             (''MN'', [(''threshold_10pct'', 3 / 2)])]\<rparr>"

definition threshold_only_object :: monosynaptic where
  "threshold_only_object =
     default_object\<lparr>ees_recruitment_profile :=
       [(''Ia'', [(''threshold_10pct'', 3 / 10), (''saturation_90pct'', 7 / 10)]),
        (''MN'', [(''threshold_10pct'', 3 / 2)])]\<rparr>"

definition threshold_high :: args where
  "threshold_high =
     no_overrides\<lparr>p_ees_recruitment_profile :=
       Some [(''Ia'', [(''threshold_10pct'', 3 / 10), (''saturation_90pct'', 7 / 10)]),
             (''MN'', [(''threshold_10pct'', 3 / 2), (''saturation_90pct'', 9 / 10)])]\<rparr>"

definition threshold_high_object :: monosynaptic where
  "threshold_high_object =
     default_object\<lparr>ees_recruitment_profile :=
       [(''Ia'', [(''threshold_10pct'', 3 / 10), (''saturation_90pct'', 7 / 10)]),
        (''MN'', [(''threshold_10pct'', 3 / 2), (''saturation_90pct'', 9 / 10)])]\<rparr>"

definition only_Ia_profile :: args where
  "only_Ia_profile =
     no_overrides\<lparr>p_ees_recruitment_profile :=
       Some [(''Ia'', [(''threshold_10pct'', 3 / 10), (''saturation_90pct'', 7 / 10)])]\<rparr>"

definition only_Ia_profile_object :: monosynaptic where
  "only_Ia_profile_object =
     default_object\<lparr>ees_recruitment_profile :=
       [(''Ia'', [(''threshold_10pct'', 3 / 10), (''saturation_90pct'', 7 / 10)])]\<rparr>"

definition only_T_refr :: args where
  "only_T_refr = no_overrides\<lparr>p_biophysical_params := Some [(''T_refr'', scale 5 ms)]\<rparr>"

section \<open>Evaluation of the default configuration\<close>

lemmas unit_defs = ms_def mV_def nS_def nF_def

lemmas default_defs = default_biophysical_params_def default_ees_recruitment_profile_def
  default_neurons_population_def default_connections_def default_spindle_model_def

lemmas record_defs = biological_system.defs monosynaptic.defs

lemmas check_defs = check_muscles_def check_neurons_def check_connections_def check_spindle_def
  check_ees_types_def check_inhibitory_def check_required_params_def check_ees_entry_def
  check_ees_params_def add_error_def add_warning_def empty_issues_def keys_def pre_checks_def
  required_neurons_def required_connections_def required_params_def expected_units_def
  required_ees_params_def

lemma build_default: "build no_overrides = Inr default_object"
  by (simp add: build_def no_overrides_def default_object_def default_defs base_init_def
      or_default_def updated_with_def)

lemma collect_default: "collect_issues default_object = Inr empty_issues"
  by (simp add: collect_issues_def default_object_def base_init_def record_defs default_defs
      check_defs unit_defs)

lemma validate_default: "validate_input default_object = (Inr None, default_object)"
  by (simp add: validate_input_def collect_default) (simp add: empty_issues_def)

lemma init_default: "init no_overrides = Inr (default_object, None)"
  by (simp add: init_def build_default validate_default)

text \<open>
  Claim C2. Constructing \<^verbatim>\<open>Monosynaptic\<close> with no overrides succeeds and prints no
  notice; the object has the neuron populations Ia = 410 and MN = 500 and nothing
  else, the single connection key (Ia, MN), the single spindle equation keyed Ia, and
  its validation collects no error and no warning.
\<close>

theorem default_configuration:
  "\<exists>self. init no_overrides = Inr (self, None)
     \<and> neurons_population self = [(''Ia'', 410), (''MN'', 500)]
     \<and> map fst (connections self) = [(''Ia'', ''MN'')]
     \<and> map fst (spindle_model self) = [''Ia'']
     \<and> collect_issues self = Inr \<lparr>warnings = [], errors = []\<rparr>
     \<and> validate_input self = (Inr None, self)"
proof -
  have "neurons_population default_object = [(''Ia'', 410), (''MN'', 500)]"
    by (simp add: default_object_def record_defs default_defs)
  moreover have "map fst (connections default_object) = [(''Ia'', ''MN'')]"
    by (simp add: default_object_def record_defs default_defs)
  moreover have "map fst (spindle_model default_object) = [''Ia'']"
    by (simp add: default_object_def record_defs default_defs)
  moreover have "collect_issues default_object = Inr \<lparr>warnings = [], errors = []\<rparr>"
    using collect_default by (simp add: empty_issues_def)
  ultimately show ?thesis
    by (intro exI [of _ default_object]) (simp add: init_default validate_default)
qed

text \<open>
  Claim C3, as stated: in the default recruitment profile the entry of Ia has
  \<^verbatim>\<open>threshold_10pct\<close> = 0.10. It fails: the profile of the object built with no
  overrides holds another value there.
\<close>

theorem default_ees_profile_counterexample:
  "init no_overrides = Inr (default_object, None)
     \<and> ees_value (ees_recruitment_profile default_object) ''Ia'' ''threshold_10pct''
         \<noteq> Some (10 / 100)"
proof -
  have "ees_value (ees_recruitment_profile default_object) ''Ia'' ''threshold_10pct''
          \<noteq> Some (10 / 100)"
    by (simp add: default_object_def record_defs base_init_def default_defs ees_value_def)
  then show ?thesis by (simp add: init_default)
qed

text \<open>
  Claim C3, amended: in the default recruitment profile Ia has \<^verbatim>\<open>threshold_10pct\<close> =
  0.3 and \<^verbatim>\<open>saturation_90pct\<close> = 0.7, and MN has \<^verbatim>\<open>threshold_10pct\<close> = 0.7 and
  \<^verbatim>\<open>saturation_90pct\<close> = 0.9.
\<close>

theorem default_ees_profile:
  "\<exists>self out. init no_overrides = Inr (self, out)
     \<and> ees_value (ees_recruitment_profile self) ''Ia'' ''threshold_10pct'' = Some (30 / 100)
     \<and> ees_value (ees_recruitment_profile self) ''Ia'' ''saturation_90pct'' = Some (70 / 100)
     \<and> ees_value (ees_recruitment_profile self) ''MN'' ''threshold_10pct'' = Some (70 / 100)
     \<and> ees_value (ees_recruitment_profile self) ''MN'' ''saturation_90pct'' = Some (90 / 100)"
proof -
  have "ees_recruitment_profile default_object = default_ees_recruitment_profile"
    by (simp add: default_object_def record_defs base_init_def)
  then show ?thesis
    by (intro exI [of _ default_object] exI [of _ None])
      (simp add: init_default default_ees_recruitment_profile_def ees_value_def)
qed

section \<open>Validation reads, and changes nothing\<close>

lemma validate_input_object: "snd (validate_input self) = self"
  by (simp add: validate_input_def split: sum.splits)

text \<open>
  Claim C8. When \<^verbatim>\<open>validate_input\<close> succeeds on an object, the object after the call
  is the object before it, field by field, and a second call on it succeeds with the
  same outcome (the same notice, or none).
\<close>

theorem validate_input_read_only:
  assumes "validate_input self = (Inr out, self')"
  shows "self' = self \<and> validate_input self' = (Inr out, self')
     \<and> neurons_population self' = neurons_population self
     \<and> connections self' = connections self
     \<and> spindle_model self' = spindle_model self
     \<and> biophysical_params self' = biophysical_params self
     \<and> ees_recruitment_profile self' = ees_recruitment_profile self
     \<and> initial_potentials self' = initial_potentials self
     \<and> initial_condition_spike_activation self' = initial_condition_spike_activation self"
proof -
  have "self' = self" using assms validate_input_object [of self] by simp
  then show ?thesis using assms by simp
qed

theorem validate_input_read_only_witness:
  "validate_input default_object = (Inr None, default_object)
     \<and> validate_input (snd (validate_input default_object)) = (Inr None, default_object)"
  using validate_input_read_only [of default_object None default_object] validate_default
  by simp

section \<open>Construction: the fields of the object\<close>

lemma init_build:
  assumes "init a = Inr (self, out)"
  shows "build a = Inr self \<and> validate_input self = (Inr out, self)"
proof -
  obtain s where b: "build a = Inr s"
    using assms by (cases "build a") (simp_all add: init_def)
  obtain r s' where v: "validate_input s = (r, s')"
    by (cases "validate_input s") simp
  have s': "s' = s" using v validate_input_object [of s] by simp
  have "r = Inr out \<and> s' = self"
    using assms b v by (cases r) (simp_all add: init_def)
  then show ?thesis using b v s' by simp
qed

lemma build_neurons:
  assumes "build a = Inr self"
  shows "neurons_population self = updated_with default_neurons_population (p_custom_neurons a)"
  using assms unfolding build_def Let_def
  by (auto simp add: base_init_def record_defs split: option.splits)

lemma build_biophysical:
  assumes "build a = Inr self"
  shows "biophysical_params self = or_default (p_biophysical_params a) default_biophysical_params"
  using assms unfolding build_def Let_def
  by (auto simp add: base_init_def record_defs split: option.splits)

lemma build_ees:
  assumes "build a = Inr self"
  shows "ees_recruitment_profile self =
           or_default (p_ees_recruitment_profile a) default_ees_recruitment_profile"
  using assms unfolding build_def Let_def
  by (auto simp add: base_init_def record_defs split: option.splits)

lemma build_activation:
  assumes "build a = Inr self"
  shows "\<exists>n. map_of (neurons_population self) ''MN'' = Some n \<and>
           initial_condition_spike_activation self =
             or_default (p_custom_initial_condition_spike_activation a)
               [replicate (nat n) zero_activation]"
  using assms unfolding build_def Let_def
  by (auto simp add: base_init_def record_defs split: option.splits)

lemma dict_update_Cons:
  "dict_update d ((k, v) # c) = dict_update (AList.update k v d) c"
  by (simp add: dict_update_def)

lemma map_of_dict_update:
  "distinct (map fst c) \<Longrightarrow>
   map_of (dict_update d c) k = (case map_of c k of Some v \<Rightarrow> Some v | None \<Rightarrow> map_of d k)"
proof (induction c arbitrary: d)
  case Nil
  then show ?case by (simp add: dict_update_def)
next
  case (Cons kv c)
  obtain k' v' where kv: "kv = (k', v')" by (cases kv)
  have rest: "map_of c k' = None"
    using Cons.prems kv by (simp add: map_of_eq_None_iff)
  have dc: "distinct (map fst c)" using Cons.prems by simp
  have ih: "map_of (dict_update (AList.update k' v' d) c) k =
      (case map_of c k of Some v \<Rightarrow> Some v | None \<Rightarrow> map_of (AList.update k' v' d) k)"
    by (rule Cons.IH [OF dc])
  show ?case
  proof (cases "k = k'")
    case True
    then show ?thesis using ih rest by (simp add: kv dict_update_Cons update_conv)
  next
    case False
    then show ?thesis using ih
      by (simp add: kv dict_update_Cons update_conv split: option.splits)
  qed
qed

text \<open>
  Claim C7. When the constructor succeeds with a \<^verbatim>\<open>custom_neurons\<close> mapping that does
  not mention Ia, the neuron populations keep Ia at its default 410, every mentioned
  key has the supplied value, and every key not mentioned has its default: the
  override is merged into the defaults. (A Python dictionary has no key twice.)
\<close>

theorem custom_neurons_merge:
  assumes "init a = Inr (self, out)"
    and "p_custom_neurons a = Some c"
    and "distinct (map fst c)"
    and "''Ia'' \<notin> keys c"
  shows "map_of (neurons_population self) ''Ia'' = Some 410
     \<and> (\<forall>k v. map_of c k = Some v \<longrightarrow> map_of (neurons_population self) k = Some v)
     \<and> (\<forall>k. k \<notin> keys c \<longrightarrow>
           map_of (neurons_population self) k = map_of default_neurons_population k)"
proof -
  have b: "build a = Inr self" using init_build [OF assms(1)] by simp
  have np: "neurons_population self = dict_update default_neurons_population c"
    using build_neurons [OF b] assms(2) by (simp add: updated_with_def)
  have none: "\<And>k. k \<notin> keys c \<Longrightarrow> map_of c k = None"
    by (simp add: keys_def map_of_eq_None_iff)
  have lk: "\<And>k. map_of (neurons_population self) k =
      (case map_of c k of Some v \<Rightarrow> Some v | None \<Rightarrow> map_of default_neurons_population k)"
    unfolding np by (rule map_of_dict_update [OF assms(3)])
  have 1: "map_of (neurons_population self) ''Ia'' = Some 410"
    using none [OF assms(4)] by (simp add: lk default_neurons_population_def)
  have 2: "\<forall>k v. map_of c k = Some v \<longrightarrow> map_of (neurons_population self) k = Some v"
    by (simp add: lk)
  have 3: "\<forall>k. k \<notin> keys c \<longrightarrow>
           map_of (neurons_population self) k = map_of default_neurons_population k"
    using none by (simp add: lk)
  from 1 2 3 show ?thesis by (intro conjI)
qed

lemma build_mn_600: "build mn_600 = Inr mn_600_object"
  by (simp add: build_def mn_600_def mn_600_object_def no_overrides_def default_object_def
      default_defs base_init_def dict_update_def record_defs or_default_def updated_with_def)

lemma collect_mn_600: "collect_issues mn_600_object = Inr empty_issues"
  by (simp add: collect_issues_def mn_600_object_def default_object_def base_init_def
      record_defs default_defs check_defs unit_defs)

lemma init_mn_600: "init mn_600 = Inr (mn_600_object, None)"
  by (simp add: init_def build_mn_600 validate_input_def collect_mn_600)
    (simp add: empty_issues_def)

theorem custom_neurons_merge_witness:
  "init mn_600 = Inr (mn_600_object, None)
     \<and> map_of (neurons_population mn_600_object) ''Ia'' = Some 410
     \<and> map_of (neurons_population mn_600_object) ''MN'' = Some 600"
proof -
  have c: "p_custom_neurons mn_600 = Some [(''MN'', 600)]"
    by (simp add: mn_600_def)
  have d: "distinct (map fst [(''MN'', 600::int)])" by simp
  have k: "''Ia'' \<notin> keys [(''MN'', 600::int)]" by (simp add: keys_def)
  have w: "map_of (neurons_population mn_600_object) ''Ia'' = Some 410
     \<and> (\<forall>k v. map_of [(''MN'', 600::int)] k = Some v \<longrightarrow>
           map_of (neurons_population mn_600_object) k = Some v)"
    using custom_neurons_merge [OF init_mn_600 c d k] by simp
  then have "map_of (neurons_population mn_600_object) ''MN'' = Some 600" by simp
  then show ?thesis using w init_mn_600 by simp
qed

text \<open>
  Claim C9. When the constructor succeeds and no custom initial activation state is
  supplied, the state is a list of one list, which holds \<^verbatim>\<open>range(n)\<close> records
  \<^verbatim>\<open>{u0: [0, 0], c0: [0, 0], P0: 0, a0: 0}\<close>, where \<open>n\<close> is the count stored under MN
  after the \<^verbatim>\<open>custom_neurons\<close> update: the count supplied there for MN, and the
  default 500 when none is supplied. (A Python dictionary has no key twice.)
\<close>

theorem default_activation_state:
  assumes "init a = Inr (self, out)"
    and "p_custom_initial_condition_spike_activation a = None"
  shows "\<exists>n. map_of (neurons_population self) ''MN'' = Some n
     \<and> initial_condition_spike_activation self =
         [replicate (nat n) \<lparr>u0 = [0, 0], c0 = [0, 0], P0 = 0, a0 = 0\<rparr>]
     \<and> length (initial_condition_spike_activation self) = 1
     \<and> length (hd (initial_condition_spike_activation self)) = nat n
     \<and> (p_custom_neurons a = None \<longrightarrow> n = 500)
     \<and> (\<forall>c. p_custom_neurons a = Some c \<and> distinct (map fst c) \<longrightarrow>
           (\<forall>k. map_of c ''MN'' = Some k \<longrightarrow> n = k)
           \<and> (''MN'' \<notin> keys c \<longrightarrow> n = 500))"
proof -
  have b: "build a = Inr self" using init_build [OF assms(1)] by simp
  from build_activation [OF b]
  obtain n where nact: "map_of (neurons_population self) ''MN'' = Some n \<and>
      initial_condition_spike_activation self =
        or_default (p_custom_initial_condition_spike_activation a)
          [replicate (nat n) zero_activation]" ..
  have n: "map_of (neurons_population self) ''MN'' = Some n"
    using nact by (rule conjunct1)
  have act: "initial_condition_spike_activation self =
         [replicate (nat n) \<lparr>u0 = [0, 0], c0 = [0, 0], P0 = 0, a0 = 0\<rparr>]"
    using nact assms(2) by (simp add: or_default_def zero_activation_def)
  have l1: "length (initial_condition_spike_activation self) = 1"
    by (simp add: act)
  have l2: "length (hd (initial_condition_spike_activation self)) = nat n"
    by (simp add: act)
  have np: "neurons_population self =
      updated_with default_neurons_population (p_custom_neurons a)"
    by (rule build_neurons [OF b])
  have d: "p_custom_neurons a = None \<longrightarrow> n = 500"
  proof
    assume "p_custom_neurons a = None"
    then have "map_of (neurons_population self) ''MN'' = Some 500"
      by (simp add: np updated_with_def default_neurons_population_def)
    then show "n = 500" using n by simp
  qed
  have c: "\<forall>c. p_custom_neurons a = Some c \<and> distinct (map fst c) \<longrightarrow>
           (\<forall>k. map_of c ''MN'' = Some k \<longrightarrow> n = k)
           \<and> (''MN'' \<notin> keys c \<longrightarrow> n = 500)"
  proof (intro allI impI)
    fix c
    assume h: "p_custom_neurons a = Some c \<and> distinct (map fst c)"
    have lk: "Some n =
        (case map_of c ''MN'' of Some v \<Rightarrow> Some v
         | None \<Rightarrow> map_of default_neurons_population ''MN'')"
      using n h map_of_dict_update [of c default_neurons_population "''MN''"]
      by (simp add: np updated_with_def)
    have none: "''MN'' \<notin> keys c \<Longrightarrow> map_of c ''MN'' = None"
      by (simp add: keys_def map_of_eq_None_iff)
    have k: "\<forall>k. map_of c ''MN'' = Some k \<longrightarrow> n = k"
    proof (intro allI impI)
      fix k
      assume "map_of c ''MN'' = Some k"
      then show "n = k" using lk by simp
    qed
    have k': "''MN'' \<notin> keys c \<longrightarrow> n = 500"
    proof
      assume "''MN'' \<notin> keys c"
      then have "map_of c ''MN'' = None" by (rule none)
      then show "n = 500" using lk by (simp add: default_neurons_population_def)
    qed
    from k k' show "(\<forall>k. map_of c ''MN'' = Some k \<longrightarrow> n = k)
           \<and> (''MN'' \<notin> keys c \<longrightarrow> n = 500)" by (rule conjI)
  qed
  show ?thesis
    by (rule exI [of _ n]) (intro conjI n act l1 l2 d c)
qed

theorem default_activation_state_witness:
  "init mn_600 = Inr (mn_600_object, None)
     \<and> map_of (neurons_population mn_600_object) ''MN'' = Some 600
     \<and> initial_condition_spike_activation mn_600_object =
         [replicate (nat 600) \<lparr>u0 = [0, 0], c0 = [0, 0], P0 = 0, a0 = 0\<rparr>]
     \<and> length (hd (initial_condition_spike_activation mn_600_object)) = nat 600"
proof -
  have c: "p_custom_initial_condition_spike_activation mn_600 = None"
    by (simp add: mn_600_def no_overrides_def)
  have p: "p_custom_neurons mn_600 = Some [(''MN'', 600)]"
    by (simp add: mn_600_def)
  from default_activation_state [OF init_mn_600 c]
  obtain n where nact: "map_of (neurons_population mn_600_object) ''MN'' = Some n
     \<and> initial_condition_spike_activation mn_600_object =
         [replicate (nat n) \<lparr>u0 = [0, 0], c0 = [0, 0], P0 = 0, a0 = 0\<rparr>]
     \<and> length (initial_condition_spike_activation mn_600_object) = 1
     \<and> length (hd (initial_condition_spike_activation mn_600_object)) = nat n
     \<and> (p_custom_neurons mn_600 = None \<longrightarrow> n = 500)
     \<and> (\<forall>c. p_custom_neurons mn_600 = Some c \<and> distinct (map fst c) \<longrightarrow>
           (\<forall>k. map_of c ''MN'' = Some k \<longrightarrow> n = k)
           \<and> (''MN'' \<notin> keys c \<longrightarrow> n = 500))" ..
  then have "\<forall>c. p_custom_neurons mn_600 = Some c \<and> distinct (map fst c) \<longrightarrow>
           (\<forall>k. map_of c ''MN'' = Some k \<longrightarrow> n = k)
           \<and> (''MN'' \<notin> keys c \<longrightarrow> n = 500)"
    by (elim conjE)
  then have "p_custom_neurons mn_600 = Some [(''MN'', 600)]
       \<and> distinct (map fst [(''MN'', 600::int)]) \<longrightarrow>
           (\<forall>k. map_of [(''MN'', 600::int)] ''MN'' = Some k \<longrightarrow> n = k)
           \<and> (''MN'' \<notin> keys [(''MN'', 600::int)] \<longrightarrow> n = 500)"
    by (rule spec)
  then have "n = 600" using p by simp
  then show ?thesis using nact init_mn_600 by simp
qed

section \<open>The error bucket\<close>

lemma errors_add_error: "errors (add_error m iss) = errors iss @ [m]"
  by (simp add: add_error_def)

lemma errors_add_warning: "errors (add_warning m iss) = errors iss"
  by (simp add: add_warning_def)

lemma fold_add_error:
  "errors (fold (\<lambda>x acc. if P x then add_error (f x) acc else acc) xs iss) =
     errors iss @ map f (filter P xs)"
  by (induction xs arbitrary: iss) (simp_all add: errors_add_error)

section \<open>The units loop\<close>

text \<open>
  The loop appends nothing: it returns the buckets as it got them, or it raises. It
  raises as soon as an expected key holds anything but a quantity of the expected
  dimension.
\<close>

lemma check_units_Inr:
  assumes "check_units bp us iss = Inr iss'"
  shows "iss' = iss"
  using assms
proof (induction us)
  case Nil
  then show ?case by simp
next
  case (Cons pu us)
  obtain p' u' where pu: "pu = (p', u')" by (cases pu)
  have "check_units bp us iss = Inr iss'"
    using Cons.prems by (simp add: pu split: option.splits pvalue.splits if_splits)
  then show ?case by (rule Cons.IH)
qed

lemma check_units_raises:
  assumes "(p, u) \<in> set us" and "map_of bp p = Some v"
    and "\<And>m. v \<noteq> Quantity m (dim_of u)"
  shows "check_units bp us iss = Inl (AttributeError ''dim'')
     \<or> check_units bp us iss = Inl (AttributeError ''unit'')"
  using assms(1)
proof (induction us)
  case Nil
  then show ?case by simp
next
  case (Cons pu us)
  obtain p' u' where pu: "pu = (p', u')" by (cases pu)
  show ?case
  proof (cases "(p, u) = (p', u')")
    case True
    then have v: "map_of bp p' = Some v" and u: "u' = u" using assms(2) by simp_all
    show ?thesis
    proof (cases v)
      case (Number x)
      then show ?thesis using v by (simp add: pu)
    next
      case (Quantity m d)
      then have "d \<noteq> dim_of u'" using assms(3) [of m] u by simp
      then show ?thesis using v Quantity by (simp add: pu)
    qed
  next
    case False
    then have "(p, u) \<in> set us" using Cons.prems pu by auto
    then have ih: "check_units bp us iss = Inl (AttributeError ''dim'')
        \<or> check_units bp us iss = Inl (AttributeError ''unit'')"
      by (rule Cons.IH)
    show ?thesis
      using ih by (auto simp add: pu split: option.splits pvalue.splits)
  qed
qed

lemma check_units_raises_dim:
  assumes "(p, u) \<in> set us" and "map_of bp p = Some (Number x)"
    and "\<And>q w m d. (q, w) \<in> set us \<Longrightarrow> map_of bp q = Some (Quantity m d) \<Longrightarrow> d = dim_of w"
  shows "check_units bp us iss = Inl (AttributeError ''dim'')"
  using assms(1,3)
proof (induction us)
  case Nil
  then show ?case by simp
next
  case (Cons pu us)
  obtain p' u' where pu: "pu = (p', u')" by (cases pu)
  have match: "\<And>m d. map_of bp p' = Some (Quantity m d) \<Longrightarrow> d = dim_of u'"
    using Cons.prems(2) [of p' u'] pu by simp
  show ?case
  proof (cases "(p, u) = (p', u')")
    case True
    then show ?thesis using assms(2) by (simp add: pu)
  next
    case False
    then have "(p, u) \<in> set us" using Cons.prems(1) pu by auto
    moreover have "\<And>q w m d. (q, w) \<in> set us \<Longrightarrow> map_of bp q = Some (Quantity m d)
        \<Longrightarrow> d = dim_of w"
    proof -
      fix q w m d
      assume "(q, w) \<in> set us" and "map_of bp q = Some (Quantity m d)"
      then show "d = dim_of w" using Cons.prems(2) [of q w m d] by simp
    qed
    ultimately have ih: "check_units bp us iss = Inl (AttributeError ''dim'')"
      by (rule Cons.IH)
    show ?thesis
      using ih match by (auto simp add: pu split: option.splits pvalue.splits)
  qed
qed

section \<open>The loop over the recruitment profile\<close>

lemma errors_check_ees_entry:
  "errors (check_ees_entry neuron_type params iss) =
     errors iss @ errors (check_ees_entry neuron_type params empty_issues)"
  by (simp add: check_ees_entry_def Let_def fold_add_error errors_add_error empty_issues_def
      split: option.splits)

lemma errors_check_ees_params_aux:
  "errors (fold (\<lambda>entry acc. check_ees_entry (fst entry) (snd entry) acc) profile iss) =
     errors iss @ concat (map (\<lambda>entry. errors (check_ees_entry (fst entry) (snd entry) empty_issues))
                            profile)"
proof (induction profile arbitrary: iss)
  case Nil
  then show ?case by simp
next
  case (Cons e profile)
  show ?case
    by (simp add: Cons.IH errors_check_ees_entry [of "fst e" "snd e" iss])
qed

lemma errors_check_ees_params:
  "errors (check_ees_params self iss) =
     errors iss @ concat (map (\<lambda>entry. errors (check_ees_entry (fst entry) (snd entry) empty_issues))
                            (ees_recruitment_profile self))"
  unfolding check_ees_params_def by (rule errors_check_ees_params_aux)

lemma ees_entry_missing:
  assumes "neuron_type \<in> set [''Ia'', ''MN'']"
    and "f \<in> set required_ees_params" and "f \<notin> keys params"
  shows "msg_missing_ees_param f neuron_type
           \<in> set (errors (check_ees_entry neuron_type params empty_issues))"
proof -
  have "msg_missing_ees_param f neuron_type \<in> set (errors
          (fold (\<lambda>param acc. if param \<notin> keys params
                   then add_error (msg_missing_ees_param param neuron_type) acc else acc)
             required_ees_params empty_issues))"
    using assms(2,3) by (simp add: fold_add_error)
  then show ?thesis
    using assms(1)
    by (auto simp add: check_ees_entry_def Let_def errors_add_error split: option.splits)
qed

lemma ees_entry_range:
  assumes "neuron_type \<in> set [''Ia'', ''MN'']"
    and "map_of params ''threshold_10pct'' = Some t"
    and "map_of params ''saturation_90pct'' = Some s"
    and "\<not> (0 \<le> t \<and> t \<le> 1) \<or> \<not> (0 \<le> s \<and> s \<le> 1)"
  shows "msg_ees_range neuron_type t s
           \<in> set (errors (check_ees_entry neuron_type params empty_issues))"
  using assms by (auto simp add: check_ees_entry_def Let_def errors_add_error)

lemma ees_entry_order:
  assumes "neuron_type \<in> set [''Ia'', ''MN'']"
    and "map_of params ''threshold_10pct'' = Some t"
    and "map_of params ''saturation_90pct'' = Some s"
    and "t \<ge> s"
  shows "msg_ees_order neuron_type
           \<in> set (errors (check_ees_entry neuron_type params empty_issues))"
  using assms by (auto simp add: check_ees_entry_def Let_def errors_add_error)

lemma ees_entry_partial:
  assumes "neuron_type \<in> set [''Ia'', ''MN'']"
    and "map_of params ''threshold_10pct'' = None \<or> map_of params ''saturation_90pct'' = None"
  shows "errors (check_ees_entry neuron_type params empty_issues) =
           map (\<lambda>f. msg_missing_ees_param f neuron_type)
             (filter (\<lambda>f. f \<notin> keys params) required_ees_params)"
  using assms
  by (auto simp add: check_ees_entry_def Let_def fold_add_error empty_issues_def
      split: option.splits)

section \<open>The collection pass and the report\<close>

lemma collect_issues_Inr:
  assumes "collect_issues self = Inr iss"
  shows "iss = check_ees_params self (pre_checks self)"
proof -
  obtain iss1 where u: "check_units (biophysical_params self) expected_units (pre_checks self) = Inr iss1"
    and i: "iss = check_ees_params self iss1"
    using assms by (auto simp add: collect_issues_def split: sum.splits)
  have "iss1 = pre_checks self" by (rule check_units_Inr [OF u])
  then show ?thesis using i by simp
qed

lemma collect_issues_ees:
  assumes "collect_issues self = Inr iss"
    and "(neuron_type, params) \<in> set (ees_recruitment_profile self)"
    and "m \<in> set (errors (check_ees_entry neuron_type params empty_issues))"
  shows "m \<in> set (errors iss)"
proof -
  have i: "iss = check_ees_params self (pre_checks self)"
    by (rule collect_issues_Inr [OF assms(1)])
  have "\<exists>entry \<in> set (ees_recruitment_profile self).
          m \<in> set (errors (check_ees_entry (fst entry) (snd entry) empty_issues))"
    using assms(2,3) by force
  then show ?thesis by (simp add: i errors_check_ees_params)
qed

lemma validate_input_raises:
  assumes "collect_issues self = Inl e"
  shows "validate_input self = (Inl e, self)"
  using assms by (simp add: validate_input_def)

lemma validate_input_attribute_error:
  assumes "(p, u) \<in> set expected_units"
    and "map_of (biophysical_params self) p = Some v"
    and "\<And>m. v \<noteq> Quantity m (dim_of u)"
  shows "validate_input self = (Inl (AttributeError ''dim''), self)
     \<or> validate_input self = (Inl (AttributeError ''unit''), self)"
proof -
  have "check_units (biophysical_params self) expected_units (pre_checks self)
          = Inl (AttributeError ''dim'')
     \<or> check_units (biophysical_params self) expected_units (pre_checks self)
          = Inl (AttributeError ''unit'')"
    by (rule check_units_raises [OF assms])
  then have "collect_issues self = Inl (AttributeError ''dim'')
     \<or> collect_issues self = Inl (AttributeError ''unit'')"
    by (auto simp add: collect_issues_def)
  then show ?thesis using validate_input_raises by blast
qed

lemma validate_input_errors:
  assumes "collect_issues self = Inr iss" and "m \<in> set (errors iss)"
  shows "validate_input self = (Inl (ValueError (error_report (errors iss))), self)"
proof -
  have "errors iss \<noteq> []" using assms(2) by auto
  then show ?thesis using assms(1) by (simp add: validate_input_def)
qed

lemma init_fails:
  assumes "build a = Inr self" and "validate_input self = (Inl e, self)"
  shows "init a = Inl e"
  using assms by (simp add: init_def)

text \<open>
  Claim C10. The units loop reads \<^verbatim>\<open>value.dim\<close> of every present value among the
  seven expected keys. When one of them holds a plain number, \<^verbatim>\<open>validate_input\<close>
  raises an attribute error, whatever else the configuration holds, and so does the
  constructor: no aggregated report is raised and nothing is returned. The attribute
  read in vain is \<^verbatim>\<open>dim\<close>, at the plain number, unless the loop meets a quantity
  of another dimension first (there it is \<^verbatim>\<open>unit\<close>): it is \<^verbatim>\<open>dim\<close> whenever
  the quantities stored under the expected keys have the expected dimensions.
\<close>

theorem plain_number_aborts:
  assumes "(p, u) \<in> set expected_units"
    and "map_of (biophysical_params self) p = Some (Number x)"
  shows "(validate_input self = (Inl (AttributeError ''dim''), self)
          \<or> validate_input self = (Inl (AttributeError ''unit''), self))
     \<and> (\<forall>a. build a = Inr self \<longrightarrow>
           init a = Inl (AttributeError ''dim'') \<or> init a = Inl (AttributeError ''unit''))
     \<and> ((\<forall>q w m d. (q, w) \<in> set expected_units
             \<and> map_of (biophysical_params self) q = Some (Quantity m d) \<longrightarrow> d = dim_of w) \<longrightarrow>
           validate_input self = (Inl (AttributeError ''dim''), self))"
proof -
  have v: "validate_input self = (Inl (AttributeError ''dim''), self)
          \<or> validate_input self = (Inl (AttributeError ''unit''), self)"
    by (rule validate_input_attribute_error [OF assms]) simp
  have i: "\<forall>a. build a = Inr self \<longrightarrow>
           init a = Inl (AttributeError ''dim'') \<or> init a = Inl (AttributeError ''unit'')"
    using v init_fails by blast
  have d: "(\<forall>q w m d. (q, w) \<in> set expected_units
             \<and> map_of (biophysical_params self) q = Some (Quantity m d) \<longrightarrow> d = dim_of w) \<longrightarrow>
           validate_input self = (Inl (AttributeError ''dim''), self)"
  proof
    assume a: "\<forall>q w m d. (q, w) \<in> set expected_units
             \<and> map_of (biophysical_params self) q = Some (Quantity m d) \<longrightarrow> d = dim_of w"
    have "check_units (biophysical_params self) expected_units (pre_checks self)
            = Inl (AttributeError ''dim'')"
      by (rule check_units_raises_dim [OF assms]) (use a in blast)
    then have "collect_issues self = Inl (AttributeError ''dim'')"
      by (simp add: collect_issues_def)
    then show "validate_input self = (Inl (AttributeError ''dim''), self)"
      by (rule validate_input_raises)
  qed
  from v i d show ?thesis by (intro conjI)
qed

lemma build_plain_T_refr: "build plain_T_refr = Inr plain_T_refr_object"
  by (simp add: build_def plain_T_refr_def plain_T_refr_object_def no_overrides_def
      default_object_def default_defs base_init_def record_defs or_default_def updated_with_def)

theorem plain_number_aborts_witness:
  "build plain_T_refr = Inr plain_T_refr_object
     \<and> validate_input plain_T_refr_object = (Inl (AttributeError ''dim''), plain_T_refr_object)
     \<and> init plain_T_refr = Inl (AttributeError ''dim'')"
proof -
  have m: "(''T_refr'', second) \<in> set expected_units"
    by (simp add: expected_units_def)
  have v: "map_of (biophysical_params plain_T_refr_object) ''T_refr'' = Some (Number 5)"
    by (simp add: plain_T_refr_object_def default_biophysical_params_def)
  have q: "\<forall>q w m d. (q, w) \<in> set expected_units
             \<and> map_of (biophysical_params plain_T_refr_object) q = Some (Quantity m d) \<longrightarrow>
           d = dim_of w"
    by (auto simp add: expected_units_def plain_T_refr_object_def default_biophysical_params_def
        unit_defs)
  have "validate_input plain_T_refr_object = (Inl (AttributeError ''dim''), plain_T_refr_object)"
    using plain_number_aborts [OF m v] q by blast
  then show ?thesis
    using build_plain_T_refr init_fails by simp
qed

text \<open>
  Claim C5. The claim: a quantity of the wrong dimension under one of the seven
  expected keys gives a collected error that names the parameter, the expected unit
  and the unit of the value. The code builds that message with \<^verbatim>\<open>value.unit\<close>, which
  a quantity does not have: with 5 mV under \<^verbatim>\<open>T_refr\<close> in an otherwise default
  dictionary, \<^verbatim>\<open>validate_input\<close> and the constructor raise the attribute error, no
  message is collected and no report is raised.
\<close>

lemma build_volt_T_refr: "build volt_T_refr = Inr volt_T_refr_object"
  by (simp add: build_def volt_T_refr_def volt_T_refr_object_def no_overrides_def
      default_object_def default_defs base_init_def record_defs or_default_def updated_with_def
      unit_defs)

theorem unit_mismatch_aborts:
  "build volt_T_refr = Inr volt_T_refr_object
     \<and> map_of (biophysical_params volt_T_refr_object) ''T_refr''
         = Some (Quantity (5 / 1000) (dim_of volt))
     \<and> collect_issues volt_T_refr_object = Inl (AttributeError ''unit'')
     \<and> validate_input volt_T_refr_object = (Inl (AttributeError ''unit''), volt_T_refr_object)
     \<and> init volt_T_refr = Inl (AttributeError ''unit'')"
proof -
  have v: "map_of (biophysical_params volt_T_refr_object) ''T_refr''
         = Some (Quantity (5 / 1000) (dim_of volt))"
    by (simp add: volt_T_refr_object_def default_biophysical_params_def unit_defs)
  have c: "collect_issues volt_T_refr_object = Inl (AttributeError ''unit'')"
    by (simp add: collect_issues_def volt_T_refr_object_def default_object_def base_init_def
        record_defs default_defs expected_units_def unit_defs)
  have r: "validate_input volt_T_refr_object = (Inl (AttributeError ''unit''), volt_T_refr_object)"
    by (rule validate_input_raises [OF c])
  have i: "init volt_T_refr = Inl (AttributeError ''unit'')"
    by (rule init_fails [OF build_volt_T_refr r])
  show ?thesis by (intro conjI build_volt_T_refr v c r i)
qed

text \<open>
  The same for every configuration: a quantity of the wrong dimension under an
  expected key ends validation with an attribute error, never with the report.
\<close>

lemma unit_mismatch_raises:
  assumes "(p, u) \<in> set expected_units"
    and "map_of (biophysical_params self) p = Some (Quantity m d)"
    and "d \<noteq> dim_of u"
  shows "validate_input self = (Inl (AttributeError ''dim''), self)
     \<or> validate_input self = (Inl (AttributeError ''unit''), self)"
  by (rule validate_input_attribute_error [OF assms(1,2)]) (use assms(3) in simp)

text \<open>
  Claim C4. The claim: whenever the validator collects an error, it raises one error
  with every collected message, and no rule cuts the others short. The step that
  ends the method does so (lines 194-197), but the units loop can raise before it:
  with two muscles and 5 mV under \<^verbatim>\<open>T_refr\<close>, the error of the muscle count is
  collected, then the loop raises the attribute error, and the collected message is
  lost with it.
\<close>

lemma report_joins_collected_errors:
  assumes "collect_issues self = Inr iss" and "errors iss \<noteq> []"
  shows "validate_input self =
           (Inl (ValueError ([Text ''Monosynaptic configuration errors:'', newline]
                              @ join newline (errors iss))), self)"
  using assms by (simp add: validate_input_def error_report_def)

lemma build_two_errors: "build two_errors = Inr two_errors_object"
  by (simp add: build_def two_errors_def two_errors_object_def no_overrides_def
      default_object_def default_defs base_init_def record_defs or_default_def updated_with_def
      unit_defs)

theorem collected_error_lost:
  "build two_errors = Inr two_errors_object
     \<and> number_muscles two_errors_object = 2
     \<and> errors (pre_checks two_errors_object) = [msg_muscles]
     \<and> collect_issues two_errors_object = Inl (AttributeError ''unit'')
     \<and> validate_input two_errors_object = (Inl (AttributeError ''unit''), two_errors_object)
     \<and> init two_errors = Inl (AttributeError ''unit'')"
proof -
  have n: "number_muscles two_errors_object = 2"
    by (simp add: two_errors_object_def)
  have e: "errors (pre_checks two_errors_object) = [msg_muscles]"
    by (simp add: two_errors_object_def default_object_def base_init_def
        record_defs default_defs check_defs unit_defs)
  have c: "collect_issues two_errors_object = Inl (AttributeError ''unit'')"
    by (simp add: collect_issues_def two_errors_object_def default_object_def base_init_def
        record_defs default_defs expected_units_def unit_defs)
  have r: "validate_input two_errors_object = (Inl (AttributeError ''unit''), two_errors_object)"
    by (rule validate_input_raises [OF c])
  have i: "init two_errors = Inl (AttributeError ''unit'')"
    by (rule init_fails [OF build_two_errors r])
  show ?thesis by (intro conjI build_two_errors n e c r i)
qed

text \<open>
  Claim C6, as stated: a sub-field of the entry of Ia or MN that is present and lies
  outside [0, 1] gives a range error even when the other sub-field is absent. It
  fails: for an entry of MN with \<^verbatim>\<open>threshold_10pct\<close> = 1.5 and no
  \<^verbatim>\<open>saturation_90pct\<close>, the only error collected is the missing sub-field.
\<close>

theorem ees_range_needs_both_counterexample:
  "build threshold_only = Inr threshold_only_object
     \<and> ees_value (ees_recruitment_profile threshold_only_object) ''MN'' ''threshold_10pct''
         = Some (3 / 2)
     \<and> ees_value (ees_recruitment_profile threshold_only_object) ''MN'' ''saturation_90pct''
         = None
     \<and> collect_issues threshold_only_object =
         Inr \<lparr>warnings = [],
              errors = [msg_missing_ees_param ''saturation_90pct'' ''MN'']\<rparr>
     \<and> init threshold_only =
         Inl (ValueError ([Text ''Monosynaptic configuration errors:'', newline]
                           @ msg_missing_ees_param ''saturation_90pct'' ''MN''))"
proof -
  have b: "build threshold_only = Inr threshold_only_object"
    by (simp add: build_def threshold_only_def threshold_only_object_def no_overrides_def
        default_object_def default_defs base_init_def record_defs or_default_def
        updated_with_def)
  have c: "collect_issues threshold_only_object =
         Inr \<lparr>warnings = [],
              errors = [msg_missing_ees_param ''saturation_90pct'' ''MN'']\<rparr>"
    by (simp add: collect_issues_def threshold_only_object_def default_object_def base_init_def
        record_defs default_defs check_defs unit_defs)
  have v: "validate_input threshold_only_object =
      (Inl (ValueError ([Text ''Monosynaptic configuration errors:'', newline]
                           @ msg_missing_ees_param ''saturation_90pct'' ''MN'')),
       threshold_only_object)"
    by (simp add: validate_input_def c error_report_def)
  have i: "init threshold_only =
         Inl (ValueError ([Text ''Monosynaptic configuration errors:'', newline]
                           @ msg_missing_ees_param ''saturation_90pct'' ''MN''))"
    by (rule init_fails [OF b v])
  have e1: "ees_value (ees_recruitment_profile threshold_only_object) ''MN'' ''threshold_10pct''
         = Some (3 / 2)"
    by (simp add: threshold_only_object_def ees_value_def)
  have e2: "ees_value (ees_recruitment_profile threshold_only_object) ''MN'' ''saturation_90pct''
         = None"
    by (simp add: threshold_only_object_def ees_value_def)
  show ?thesis by (intro conjI b e1 e2 c i)
qed

text \<open>
  Claim C6, amended: for an entry of Ia or MN in which both sub-fields are present and
  one of them lies outside [0, 1], validation collects the range error and raises the
  report; when a sub-field is absent the entry gets no range check, only the messages
  of its missing sub-fields.
\<close>

theorem ees_range_needs_both:
  assumes "collect_issues self = Inr iss"
    and "(neuron_type, params) \<in> set (ees_recruitment_profile self)"
    and "neuron_type = ''Ia'' \<or> neuron_type = ''MN''"
  shows "(\<forall>t s. map_of params ''threshold_10pct'' = Some t
              \<and> map_of params ''saturation_90pct'' = Some s
              \<and> (t < 0 \<or> 1 < t \<or> s < 0 \<or> 1 < s) \<longrightarrow>
            msg_ees_range neuron_type t s \<in> set (errors iss)
            \<and> validate_input self = (Inl (ValueError (error_report (errors iss))), self))
     \<and> (map_of params ''threshold_10pct'' = None \<or> map_of params ''saturation_90pct'' = None \<longrightarrow>
            errors (check_ees_entry neuron_type params empty_issues) =
              map (\<lambda>f. msg_missing_ees_param f neuron_type)
                (filter (\<lambda>f. f \<notin> keys params) required_ees_params))"
proof -
  have nt: "neuron_type \<in> set [''Ia'', ''MN'']" using assms(3) by auto
  have both: "\<forall>t s. map_of params ''threshold_10pct'' = Some t
              \<and> map_of params ''saturation_90pct'' = Some s
              \<and> (t < 0 \<or> 1 < t \<or> s < 0 \<or> 1 < s) \<longrightarrow>
            msg_ees_range neuron_type t s \<in> set (errors iss)
            \<and> validate_input self = (Inl (ValueError (error_report (errors iss))), self)"
  proof (intro allI impI)
    fix t s :: real
    assume a: "map_of params ''threshold_10pct'' = Some t
              \<and> map_of params ''saturation_90pct'' = Some s
              \<and> (t < 0 \<or> 1 < t \<or> s < 0 \<or> 1 < s)"
    have r: "\<not> (0 \<le> t \<and> t \<le> 1) \<or> \<not> (0 \<le> s \<and> s \<le> 1)" using a by auto
    have "msg_ees_range neuron_type t s
           \<in> set (errors (check_ees_entry neuron_type params empty_issues))"
      by (rule ees_entry_range [OF nt _ _ r]) (use a in simp_all)
    then have m: "msg_ees_range neuron_type t s \<in> set (errors iss)"
      by (rule collect_issues_ees [OF assms(1,2)])
    show "msg_ees_range neuron_type t s \<in> set (errors iss)
            \<and> validate_input self = (Inl (ValueError (error_report (errors iss))), self)"
      using m validate_input_errors [OF assms(1) m] by simp
  qed
  have one: "map_of params ''threshold_10pct'' = None \<or> map_of params ''saturation_90pct'' = None \<longrightarrow>
            errors (check_ees_entry neuron_type params empty_issues) =
              map (\<lambda>f. msg_missing_ees_param f neuron_type)
                (filter (\<lambda>f. f \<notin> keys params) required_ees_params)"
    using ees_entry_partial [OF nt] by blast
  from both one show ?thesis by (rule conjI)
qed

lemma build_threshold_high: "build threshold_high = Inr threshold_high_object"
  by (simp add: build_def threshold_high_def threshold_high_object_def no_overrides_def
      default_object_def default_defs base_init_def record_defs or_default_def
      updated_with_def)

lemma collect_threshold_high:
  "collect_issues threshold_high_object =
     Inr \<lparr>warnings = [],
          errors = [msg_ees_range ''MN'' (3 / 2) (9 / 10), msg_ees_order ''MN'']\<rparr>"
  by (simp add: collect_issues_def threshold_high_object_def default_object_def base_init_def
      record_defs default_defs check_defs unit_defs)

theorem ees_range_needs_both_witness:
  "build threshold_high = Inr threshold_high_object
     \<and> msg_ees_range ''MN'' (3 / 2) (9 / 10)
         \<in> set [msg_ees_range ''MN'' (3 / 2) (9 / 10), msg_ees_order ''MN'']
     \<and> validate_input threshold_high_object =
         (Inl (ValueError (error_report
            [msg_ees_range ''MN'' (3 / 2) (9 / 10), msg_ees_order ''MN''])),
          threshold_high_object)"
proof -
  have m: "(''MN'', [(''threshold_10pct'', 3 / 2), (''saturation_90pct'', 9 / 10)])
             \<in> set (ees_recruitment_profile threshold_high_object)"
    by (simp add: threshold_high_object_def)
  have n: "''MN'' = ''Ia'' \<or> ''MN'' = ''MN''" by simp
  have "msg_ees_range ''MN'' (3 / 2) (9 / 10)
         \<in> set [msg_ees_range ''MN'' (3 / 2) (9 / 10), msg_ees_order ''MN'']
     \<and> validate_input threshold_high_object =
         (Inl (ValueError (error_report
            [msg_ees_range ''MN'' (3 / 2) (9 / 10), msg_ees_order ''MN''])),
          threshold_high_object)"
    using ees_range_needs_both [OF collect_threshold_high m n, THEN conjunct1, THEN spec,
        THEN spec, of "3 / 2" "9 / 10"]
    by simp
  then show ?thesis using build_threshold_high by simp
qed

text \<open>
  Claim C1, as stated: a supplied partial \<^verbatim>\<open>biophysical_params\<close> or
  \<^verbatim>\<open>ees_recruitment_profile\<close> is merged into the defaults. It fails: with
  \<^verbatim>\<open>T_refr\<close> alone, no \<^verbatim>\<open>Eleaky\<close> is there to read and the constructor raises the
  key error; with the entry of Ia alone, the profile has no entry of MN and validation
  reports it missing.
\<close>

theorem supplied_mappings_counterexample:
  "init only_T_refr = Inl (KeyError ''Eleaky'')
     \<and> build only_Ia_profile = Inr only_Ia_profile_object
     \<and> map_of (ees_recruitment_profile only_Ia_profile_object) ''MN'' = None
     \<and> init only_Ia_profile =
         Inl (ValueError ([Text ''Monosynaptic configuration errors:'', newline]
                           @ msg_missing_ees ''MN''))"
proof -
  have t: "build only_T_refr = Inl (KeyError ''Eleaky'')"
    by (simp add: build_def only_T_refr_def no_overrides_def base_init_def or_default_def)
  have i1: "init only_T_refr = Inl (KeyError ''Eleaky'')"
    by (simp add: init_def t)
  have b: "build only_Ia_profile = Inr only_Ia_profile_object"
    by (simp add: build_def only_Ia_profile_def only_Ia_profile_object_def no_overrides_def
        default_object_def default_defs base_init_def record_defs or_default_def
        updated_with_def)
  have m: "map_of (ees_recruitment_profile only_Ia_profile_object) ''MN'' = None"
    by (simp add: only_Ia_profile_object_def)
  have c: "collect_issues only_Ia_profile_object =
         Inr \<lparr>warnings = [], errors = [msg_missing_ees ''MN'']\<rparr>"
    by (simp add: collect_issues_def only_Ia_profile_object_def default_object_def base_init_def
        record_defs default_defs check_defs unit_defs)
  have v: "validate_input only_Ia_profile_object =
      (Inl (ValueError ([Text ''Monosynaptic configuration errors:'', newline]
                           @ msg_missing_ees ''MN'')),
       only_Ia_profile_object)"
    by (simp add: validate_input_def c error_report_def)
  have i2: "init only_Ia_profile =
         Inl (ValueError ([Text ''Monosynaptic configuration errors:'', newline]
                           @ msg_missing_ees ''MN''))"
    by (rule init_fails [OF b v])
  show ?thesis by (intro conjI i1 b m i2)
qed

text \<open>
  Claim C1, amended: a supplied \<^verbatim>\<open>biophysical_params\<close> mapping, and likewise a
  supplied \<^verbatim>\<open>ees_recruitment_profile\<close> mapping, replaces the defaults as a whole: the
  constructed object stores the supplied mapping as it is, and the defaults only when
  the parameter is \<^verbatim>\<open>None\<close>.
\<close>

theorem supplied_mappings_replace:
  assumes "init a = Inr (self, out)"
  shows "(\<forall>b. p_biophysical_params a = Some b \<longrightarrow> biophysical_params self = b)
     \<and> (p_biophysical_params a = None \<longrightarrow>
          biophysical_params self = default_biophysical_params)
     \<and> (\<forall>e. p_ees_recruitment_profile a = Some e \<longrightarrow> ees_recruitment_profile self = e)
     \<and> (p_ees_recruitment_profile a = None \<longrightarrow>
          ees_recruitment_profile self = default_ees_recruitment_profile)"
proof -
  have b: "build a = Inr self" using init_build [OF assms] by simp
  show ?thesis
    using build_biophysical [OF b] build_ees [OF b] by (simp add: or_default_def)
qed

lemma build_slow_T_refr: "build slow_T_refr = Inr slow_T_refr_object"
  by (simp add: build_def slow_T_refr_def slow_T_refr_object_def no_overrides_def
      default_object_def default_defs base_init_def record_defs or_default_def updated_with_def
      unit_defs)

lemma collect_slow_T_refr: "collect_issues slow_T_refr_object = Inr empty_issues"
  by (simp add: collect_issues_def slow_T_refr_object_def default_object_def base_init_def
      record_defs default_defs check_defs unit_defs)

lemma init_slow_T_refr: "init slow_T_refr = Inr (slow_T_refr_object, None)"
  by (simp add: init_def build_slow_T_refr validate_input_def collect_slow_T_refr)
    (simp add: empty_issues_def)

theorem supplied_mappings_replace_witness:
  "init slow_T_refr = Inr (slow_T_refr_object, None)
     \<and> biophysical_params slow_T_refr_object =
         AList.update ''T_refr'' (scale 8 ms) default_biophysical_params
     \<and> ees_recruitment_profile slow_T_refr_object = default_ees_recruitment_profile"
proof -
  have p: "p_biophysical_params slow_T_refr =
      Some (AList.update ''T_refr'' (scale 8 ms) default_biophysical_params)"
    by (simp add: slow_T_refr_def)
  have e: "p_ees_recruitment_profile slow_T_refr = None"
    by (simp add: slow_T_refr_def no_overrides_def)
  show ?thesis
    using supplied_mappings_replace [OF init_slow_T_refr] p e init_slow_T_refr by simp
qed

end
